theory Spec2Isabelle
  imports Main "HOL-Library.AList"
begin

section \<open>Errors\<close>

text \<open>
  The sentinel errors the policy mutators of \<^verbatim>\<open>package repository\<close> return by name
  (\<^verbatim>\<open>ErrInvalidPolicyName\<close>, \<^verbatim>\<open>ErrCannotReinitialize\<close>, \<^verbatim>\<open>policy.ErrDuplicatedRuleName\<close>,
  \<^verbatim>\<open>policy.ErrMetadataNotFound\<close>), the further kinds of the error taxonomy, and
  \<open>ErrOther\<close> for every other failure a collaborator reports (signer, store I/O,
  serialisation). A Go \<^verbatim>\<open>error\<close> result is an \<open>error option\<close>: \<open>None\<close> is \<^verbatim>\<open>nil\<close>.
\<close>

datatype error =
    ErrInvalidPolicyName
  | ErrCannotReinitialize
  | ErrDuplicatedRuleName
  | ErrMetadataNotFound
  | ErrRuleNotFound
  | ErrInvalidThreshold
  | ErrPolicyNotInitialized
  | ErrOther string

section \<open>Data model\<close>

text \<open>
  \<^verbatim>\<open>tuf.Key\<close>: the mutators read \<^verbatim>\<open>key.KeyType\<close> and \<^verbatim>\<open>key.KeyID\<close>; the other two
  attributes are those of the spec's data model. A slice \<^verbatim>\<open>[]*tuf.Key\<close> is a
  \<open>Key list\<close>: its elements are taken to be non-nil pointers.
\<close>

record Key =
  KeyID :: string
  KeyType :: string
  Scheme :: string
  Public :: string

text \<open>
  Modelled from the spec: the metadata types of the packages \<^verbatim>\<open>tuf\<close> and \<^verbatim>\<open>policy\<close>,
  whose declarations are missing. A delegation is a named rule with its keys, patterns
  and threshold; a rule file has a role name, the role's own signer keys and an ordered
  list of delegations; the Root names the keys of the Root and of the top-level rule
  file. The mutators hand these values on and never look inside.
\<close>

record Delegation =
  rule_name :: string
  authorized_keys :: "Key list"
  patterns :: "string list"
  threshold :: int

record TargetsMetadata =
  role_name :: string
  keys :: "Key list"
  delegations :: "Delegation list"

record RootMetadata =
  version :: nat
  authorized_root_keys :: "Key list"
  root_threshold :: int
  authorized_targets_keys :: "Key list"
  targets_threshold :: int

text \<open>
  Modelled from the spec: \<^verbatim>\<open>sslibdsse.Envelope\<close>, whose declaration is missing: a
  payload and the ordered signatures \<open>(key_id, signature)\<close> attached to it. The wire
  format is outside the model, so the payload is the metadata value that the envelope
  carries.
\<close>

record 'p Envelope =
  payload :: 'p
  signatures :: "(string \<times> string) list"

type_synonym Env = "TargetsMetadata Envelope"

text \<open>
  \<^verbatim>\<open>sslibdsse.SignerVerifier\<close>, an interface: the result of its \<^verbatim>\<open>KeyID()\<close> method, which
  the mutators call themselves, and its signing function, which only the envelope
  adapter calls.
\<close>

record SignerVerifier =
  signer_KeyID :: "error + string"
  signer_Sign :: "TargetsMetadata \<Rightarrow> error + string"

text \<open>
  \<^verbatim>\<open>policy.State\<close>. The mutators read and write \<^verbatim>\<open>state.TargetsEnvelope\<close> (a pointer,
  \<open>None\<close> is \<^verbatim>\<open>nil\<close>) and \<^verbatim>\<open>state.DelegationEnvelopes\<close> (a Go map from role name to
  envelope; \<open>None\<close> is the \<^verbatim>\<open>nil\<close> map, which reads as empty and panics when written).
  The map is an association list read through \<open>map_of\<close> and written through
  \<open>AList.update\<close>, which keeps one entry per key.
\<close>

record PolicyState =
  RootEnvelope :: "RootMetadata Envelope option"
  TargetsEnvelope :: "Env option"
  DelegationEnvelopes :: "(string \<times> Env) list option"

text \<open>
  The store, seen through the policy-staging reference: the commits on it, newest
  first. Each commit records the state that was serialised into it, its message and
  whether the commit itself was signed.
\<close>

record PolicyCommit =
  commit_state :: PolicyState
  commit_message :: string
  commit_signed :: bool

type_synonym GitRepository = "PolicyCommit list"

section \<open>Collaborators\<close>

text \<open>
  The mutators call into the packages \<^verbatim>\<open>policy\<close> and \<^verbatim>\<open>dsse\<close>. Those functions are
  parameters of the embedding: one record holds them, each field named after the Go
  function it stands for, each fallible one returning \<open>error + result\<close>
  (\<open>Inl\<close> is the non-nil error). Loading reads the repository and does not change
  it; \<^verbatim>\<open>state.Commit\<close> is the one call that returns a new repository. The context
  \<^verbatim>\<open>ctx\<close> and the \<^verbatim>\<open>slog.Debug\<close> lines are left out: a cancelled or failed call
  of a collaborator is its \<open>Inl\<close> result.
\<close>

record Collaborators =
  policy_LoadCurrentState :: "GitRepository \<Rightarrow> error + PolicyState"
  state_HasTargetsRole :: "PolicyState \<Rightarrow> string \<Rightarrow> bool"
  state_HasRuleName :: "PolicyState \<Rightarrow> string \<Rightarrow> bool"
  state_GetTargetsMetadata :: "PolicyState \<Rightarrow> string \<Rightarrow> error + TargetsMetadata"
  policy_InitializeTargetsMetadata :: TargetsMetadata
  policy_AddDelegation ::
    "TargetsMetadata \<Rightarrow> string \<Rightarrow> Key list \<Rightarrow> string list \<Rightarrow> int \<Rightarrow> error + TargetsMetadata"
  policy_UpdateDelegation ::
    "TargetsMetadata \<Rightarrow> string \<Rightarrow> Key list \<Rightarrow> string list \<Rightarrow> int \<Rightarrow> error + TargetsMetadata"
  policy_RemoveDelegation :: "TargetsMetadata \<Rightarrow> string \<Rightarrow> error + TargetsMetadata"
  policy_AddKeyToTargets :: "TargetsMetadata \<Rightarrow> Key list \<Rightarrow> error + TargetsMetadata"
  dsse_CreateEnvelope :: "TargetsMetadata \<Rightarrow> error + Env"
  dsse_SignEnvelope :: "Env option \<Rightarrow> SignerVerifier \<Rightarrow> error + Env"
  state_Commit :: "PolicyState \<Rightarrow> GitRepository \<Rightarrow> string \<Rightarrow> bool \<Rightarrow> error option \<times> GitRepository"

text \<open>
  Modelled from the spec: the constants \<^verbatim>\<open>policy.RootRoleName\<close> and
  \<^verbatim>\<open>policy.TargetsRoleName\<close>, whose declarations are missing. The reserved name of the
  trust anchor is \<^verbatim>\<open>"root"\<close> (the message of \<^verbatim>\<open>ErrInvalidPolicyName\<close> says so too) and
  the top-level rule file is \<^verbatim>\<open>"targets"\<close>.
\<close>

definition RootRoleName :: string where
  "RootRoleName = ''root''"

definition TargetsRoleName :: string where
  "TargetsRoleName = ''targets''"

section \<open>The mutators\<close>

text \<open>
  What a mutator does: it returns an error value without calling \<^verbatim>\<open>state.Commit\<close>
  (\<open>Returned None\<close> is a \<^verbatim>\<open>nil\<close> return), it panics, or it ends in the tail call
  \<^verbatim>\<open>return state.Commit(r.r, commitMessage, signCommit)\<close> on the state it has built.
\<close>

datatype outcome =
    Returned "error option"
  | Panicked
  | CommitCalled PolicyState string bool

text \<open>
  \<^verbatim>\<open>fmt.Sprintf\<close> on \<^verbatim>\<open>%s\<close> with string arguments is concatenation; \<open>quoted s\<close> is
  \<^verbatim>\<open>'%s'\<close>.
\<close>

definition quoted :: "string \<Rightarrow> string" where
  "quoted s = [CHR 0x27] @ s @ [CHR 0x27]"

text \<open>
  The block every mutator but \<^verbatim>\<open>InitializeTargets\<close> ends with:
  \<^verbatim>\<open>if targetsRoleName == policy.TargetsRoleName { state.TargetsEnvelope = env }
  else { state.DelegationEnvelopes[targetsRoleName] = env }\<close>.
  Assigning into a \<^verbatim>\<open>nil\<close> map panics: the result is \<open>None\<close> then.
\<close>

definition set_envelope :: "PolicyState \<Rightarrow> string \<Rightarrow> Env \<Rightarrow> PolicyState option" where
  "set_envelope state targetsRoleName env =
     (if targetsRoleName = TargetsRoleName then Some (state\<lparr>TargetsEnvelope := Some env\<rparr>)
      else (case DelegationEnvelopes state of
              None \<Rightarrow> None
            | Some m \<Rightarrow> Some (state\<lparr>DelegationEnvelopes := Some (AList.update targetsRoleName env m)\<rparr>)))"

text \<open>Reading \<^verbatim>\<open>state.DelegationEnvelopes[name]\<close>: a missing key, or a nil map, gives nil.\<close>

definition delegation_envelope :: "PolicyState \<Rightarrow> string \<Rightarrow> Env option" where
  "delegation_envelope state name =
     (case DelegationEnvelopes state of None \<Rightarrow> None | Some m \<Rightarrow> map_of m name)"

definition InitializeTargets ::
  "Collaborators \<Rightarrow> GitRepository \<Rightarrow> SignerVerifier \<Rightarrow> string \<Rightarrow> bool \<Rightarrow> outcome" where
  "InitializeTargets c r signer targetsRoleName signCommit =
     (if targetsRoleName = RootRoleName then Returned (Some ErrInvalidPolicyName)
      else (case signer_KeyID signer of
        Inl err \<Rightarrow> Returned None
      | Inr keyID \<Rightarrow>
      (case policy_LoadCurrentState c r of
        Inl err \<Rightarrow> Returned (Some err)
      | Inr state \<Rightarrow>
      if state_HasTargetsRole c state targetsRoleName then Returned (Some ErrCannotReinitialize)
      else (case dsse_CreateEnvelope c (policy_InitializeTargetsMetadata c) of
        Inl err \<Rightarrow> Returned None
      | Inr env0 \<Rightarrow>
      (case dsse_SignEnvelope c (Some env0) signer of
        Inl err \<Rightarrow> Returned None
      | Inr env \<Rightarrow>
      CommitCalled
        (if targetsRoleName = TargetsRoleName then state\<lparr>TargetsEnvelope := Some env\<rparr>
         else state\<lparr>DelegationEnvelopes :=
                Some (AList.update targetsRoleName env
                  (case DelegationEnvelopes state of None \<Rightarrow> [] | Some m \<Rightarrow> m))\<rparr>)
        (''Initialize policy '' @ quoted targetsRoleName)
        signCommit)))))"

definition AddDelegation ::
  "Collaborators \<Rightarrow> GitRepository \<Rightarrow> SignerVerifier \<Rightarrow> string \<Rightarrow> string \<Rightarrow> Key list \<Rightarrow>
     string list \<Rightarrow> int \<Rightarrow> bool \<Rightarrow> outcome" where
  "AddDelegation c r signer targetsRoleName ruleName authorizedKeys rulePatterns thr signCommit =
     (if ruleName = RootRoleName then Returned (Some ErrInvalidPolicyName)
      else (case signer_KeyID signer of
        Inl err \<Rightarrow> Returned None
      | Inr keyID \<Rightarrow>
      (case policy_LoadCurrentState c r of
        Inl err \<Rightarrow> Returned (Some err)
      | Inr state \<Rightarrow>
      if state_HasRuleName c state ruleName then Returned (Some ErrDuplicatedRuleName)
      else if \<not> state_HasTargetsRole c state targetsRoleName then Returned (Some ErrMetadataNotFound)
      else (case state_GetTargetsMetadata c state targetsRoleName of
        Inl err \<Rightarrow> Returned (Some err)
      | Inr targetsMetadata0 \<Rightarrow>
      (case policy_AddDelegation c targetsMetadata0 ruleName authorizedKeys rulePatterns thr of
        Inl err \<Rightarrow> Returned (Some err)
      | Inr targetsMetadata \<Rightarrow>
      (case dsse_CreateEnvelope c targetsMetadata of
        Inl err \<Rightarrow> Returned None
      | Inr env0 \<Rightarrow>
      (case dsse_SignEnvelope c (Some env0) signer of
        Inl err \<Rightarrow> Returned None
      | Inr env \<Rightarrow>
      (case set_envelope state targetsRoleName env of
        None \<Rightarrow> Panicked
      | Some state' \<Rightarrow>
      CommitCalled state'
        (''Add rule '' @ quoted ruleName @ '' to policy '' @ quoted targetsRoleName)
        signCommit))))))))"

definition UpdateDelegation ::
  "Collaborators \<Rightarrow> GitRepository \<Rightarrow> SignerVerifier \<Rightarrow> string \<Rightarrow> string \<Rightarrow> Key list \<Rightarrow>
     string list \<Rightarrow> int \<Rightarrow> bool \<Rightarrow> outcome" where
  "UpdateDelegation c r signer targetsRoleName ruleName authorizedKeys rulePatterns thr signCommit =
     (if ruleName = RootRoleName then Returned (Some ErrInvalidPolicyName)
      else (case signer_KeyID signer of
        Inl err \<Rightarrow> Returned None
      | Inr keyID \<Rightarrow>
      (case policy_LoadCurrentState c r of
        Inl err \<Rightarrow> Returned (Some err)
      | Inr state \<Rightarrow>
      if \<not> state_HasTargetsRole c state targetsRoleName then Returned (Some ErrMetadataNotFound)
      else (case state_GetTargetsMetadata c state targetsRoleName of
        Inl err \<Rightarrow> Returned (Some err)
      | Inr targetsMetadata0 \<Rightarrow>
      (case policy_UpdateDelegation c targetsMetadata0 ruleName authorizedKeys rulePatterns thr of
        Inl err \<Rightarrow> Returned (Some err)
      | Inr targetsMetadata \<Rightarrow>
      (case dsse_CreateEnvelope c targetsMetadata of
        Inl err \<Rightarrow> Returned None
      | Inr env0 \<Rightarrow>
      (case dsse_SignEnvelope c (Some env0) signer of
        Inl err \<Rightarrow> Returned None
      | Inr env \<Rightarrow>
      (case set_envelope state targetsRoleName env of
        None \<Rightarrow> Panicked
      | Some state' \<Rightarrow>
      CommitCalled state'
        (''Update rule '' @ quoted ruleName @ '' in policy '' @ quoted targetsRoleName)
        signCommit))))))))"

definition RemoveDelegation ::
  "Collaborators \<Rightarrow> GitRepository \<Rightarrow> SignerVerifier \<Rightarrow> string \<Rightarrow> string \<Rightarrow> bool \<Rightarrow> outcome" where
  "RemoveDelegation c r signer targetsRoleName ruleName signCommit =
     (case signer_KeyID signer of
        Inl err \<Rightarrow> Returned None
      | Inr keyID \<Rightarrow>
      (case policy_LoadCurrentState c r of
        Inl err \<Rightarrow> Returned (Some err)
      | Inr state \<Rightarrow>
      if \<not> state_HasTargetsRole c state targetsRoleName then Returned (Some ErrMetadataNotFound)
      else (case state_GetTargetsMetadata c state targetsRoleName of
        Inl err \<Rightarrow> Returned (Some err)
      | Inr targetsMetadata0 \<Rightarrow>
      (case policy_RemoveDelegation c targetsMetadata0 ruleName of
        Inl err \<Rightarrow> Returned (Some err)
      | Inr targetsMetadata \<Rightarrow>
      (case dsse_CreateEnvelope c targetsMetadata of
        Inl err \<Rightarrow> Returned None
      | Inr env0 \<Rightarrow>
      (case dsse_SignEnvelope c (Some env0) signer of
        Inl err \<Rightarrow> Returned None
      | Inr env \<Rightarrow>
      (case set_envelope state targetsRoleName env of
        None \<Rightarrow> Panicked
      | Some state' \<Rightarrow>
      CommitCalled state'
        (''Remove rule '' @ quoted ruleName @ '' from policy '' @ quoted targetsRoleName)
        signCommit)))))))"

text \<open>
  The loop of \<^verbatim>\<open>AddKeyToTargets\<close>:
  \<^verbatim>\<open>for _, key := range authorizedKeys { keyIDs += fmt.Sprintf("\n%s:%s", key.KeyType, key.KeyID) }\<close>.
\<close>

fun keyIDs_of :: "Key list \<Rightarrow> string" where
  "keyIDs_of [] = ''''"
| "keyIDs_of (key # ks) = ([CHR 0x0A] @ KeyType key @ '':'' @ KeyID key) @ keyIDs_of ks"

definition AddKeyToTargets ::
  "Collaborators \<Rightarrow> GitRepository \<Rightarrow> SignerVerifier \<Rightarrow> string \<Rightarrow> Key list \<Rightarrow> bool \<Rightarrow> outcome" where
  "AddKeyToTargets c r signer targetsRoleName authorizedKeys signCommit =
     (case signer_KeyID signer of
        Inl err \<Rightarrow> Returned None
      | Inr keyID \<Rightarrow>
      (case policy_LoadCurrentState c r of
        Inl err \<Rightarrow> Returned (Some err)
      | Inr state \<Rightarrow>
      if \<not> state_HasTargetsRole c state targetsRoleName then Returned (Some ErrMetadataNotFound)
      else (let keyIDs = keyIDs_of authorizedKeys in
      (case state_GetTargetsMetadata c state targetsRoleName of
        Inl err \<Rightarrow> Returned (Some err)
      | Inr targetsMetadata0 \<Rightarrow>
      (case policy_AddKeyToTargets c targetsMetadata0 authorizedKeys of
        Inl err \<Rightarrow> Returned (Some err)
      | Inr targetsMetadata \<Rightarrow>
      (case dsse_CreateEnvelope c targetsMetadata of
        Inl err \<Rightarrow> Returned (Some err)
      | Inr env0 \<Rightarrow>
      (case dsse_SignEnvelope c (Some env0) signer of
        Inl err \<Rightarrow> Returned (Some err)
      | Inr env \<Rightarrow>
      (case set_envelope state targetsRoleName env of
        None \<Rightarrow> Panicked
      | Some state' \<Rightarrow>
      CommitCalled state'
        (''Add keys to policy '' @ quoted targetsRoleName @ [CHR 0x0A] @ keyIDs)
        signCommit))))))))"

definition SignTargets ::
  "Collaborators \<Rightarrow> GitRepository \<Rightarrow> SignerVerifier \<Rightarrow> string \<Rightarrow> bool \<Rightarrow> outcome" where
  "SignTargets c r signer targetsRoleName signCommit =
     (case policy_LoadCurrentState c r of
        Inl err \<Rightarrow> Returned (Some err)
      | Inr state \<Rightarrow>
      if \<not> state_HasTargetsRole c state targetsRoleName then Returned (Some ErrMetadataNotFound)
      else (case signer_KeyID signer of
        Inl err \<Rightarrow> Returned (Some err)
      | Inr keyID \<Rightarrow>
      (case dsse_SignEnvelope c
              (if targetsRoleName = TargetsRoleName then TargetsEnvelope state
               else delegation_envelope state targetsRoleName)
              signer of
        Inl err \<Rightarrow> Returned (Some err)
      | Inr env \<Rightarrow>
      (case set_envelope state targetsRoleName env of
        None \<Rightarrow> Panicked
      | Some state' \<Rightarrow>
      CommitCalled state'
        (''Add signature from key '' @ quoted keyID @ '' to policy '' @ quoted targetsRoleName)
        signCommit))))"

text \<open>
  The effect of a call on the store and the value the caller gets: only the tail call
  to \<^verbatim>\<open>state.Commit\<close> touches the repository, and its result is the mutator's result.
  \<open>None\<close> as the returned value is a panic.
\<close>

fun run :: "Collaborators \<Rightarrow> GitRepository \<Rightarrow> outcome \<Rightarrow> error option option \<times> GitRepository" where
  "run c r (Returned e) = (Some e, r)"
| "run c r Panicked = (None, r)"
| "run c r (CommitCalled state commitMessage signCommit) =
     (case state_Commit c state r commitMessage signCommit of (e, r') \<Rightarrow> (Some e, r'))"

section \<open>The collaborators, modelled from the spec\<close>

text \<open>
  The envelope of a role, as \<^verbatim>\<open>SignTargets\<close> reads it: the top-level slot for
  \<^verbatim>\<open>"targets"\<close>, the map entry otherwise. The rule names of a rule file are those of
  its delegations, in order.
\<close>

definition role_envelope :: "PolicyState \<Rightarrow> string \<Rightarrow> Env option" where
  "role_envelope state name =
     (if name = TargetsRoleName then TargetsEnvelope state else delegation_envelope state name)"

definition rule_names :: "TargetsMetadata \<Rightarrow> string list" where
  "rule_names doc = map rule_name (delegations doc)"

text \<open>
  Modelled from the spec: \<^verbatim>\<open>policy.LoadCurrentState\<close>, which is missing. It reads the
  state at the tip of the staging reference and fails with \<open>PolicyNotInitialized\<close> if
  the Root document is absent.
\<close>

definition load_current :: "GitRepository \<Rightarrow> error + PolicyState" where
  "load_current r =
     (case r of
        [] \<Rightarrow> Inl ErrPolicyNotInitialized
      | tip # _ \<Rightarrow>
          (case RootEnvelope (commit_state tip) of
             None \<Rightarrow> Inl ErrPolicyNotInitialized
           | Some _ \<Rightarrow> Inr (commit_state tip)))"

text \<open>
  Modelled from the spec: \<^verbatim>\<open>State.HasTargetsRole\<close>, which is missing: whether the state
  holds an envelope for the role name.
\<close>

definition has_targets_role :: "PolicyState \<Rightarrow> string \<Rightarrow> bool" where
  "has_targets_role state name =
     (case role_envelope state name of None \<Rightarrow> False | Some _ \<Rightarrow> True)"

text \<open>
  Modelled from the spec: \<^verbatim>\<open>State.HasRuleName\<close>, which is missing. It searches every
  role's delegation list for the name: the top-level rule file and every entry of the
  delegation map.
\<close>

definition has_rule_name :: "PolicyState \<Rightarrow> string \<Rightarrow> bool" where
  "has_rule_name state name =
     ((case TargetsEnvelope state of
         None \<Rightarrow> False
       | Some e \<Rightarrow> name \<in> set (rule_names (payload e)))
      \<or> (case DelegationEnvelopes state of
            None \<Rightarrow> False
          | Some m \<Rightarrow>
              list_ex (\<lambda>k. case map_of m k of
                              None \<Rightarrow> False
                            | Some e \<Rightarrow> name \<in> set (rule_names (payload e)))
                (map fst m)))"

text \<open>
  Modelled from the spec: \<^verbatim>\<open>State.GetTargetsMetadata\<close>, which is missing. It fails with
  \<open>MetadataNotFound\<close> if the role name is unknown and gives the metadata in the role's
  envelope otherwise.
\<close>

definition get_targets_metadata :: "PolicyState \<Rightarrow> string \<Rightarrow> error + TargetsMetadata" where
  "get_targets_metadata state name =
     (case role_envelope state name of
        None \<Rightarrow> Inl ErrMetadataNotFound
      | Some e \<Rightarrow> Inr (payload e))"

text \<open>
  Modelled from the spec: \<^verbatim>\<open>policy.InitializeTargetsMetadata\<close>, which is missing: role
  name \<^verbatim>\<open>"targets"\<close>, empty delegation list.
\<close>

definition initialize_targets :: TargetsMetadata where
  "initialize_targets = \<lparr>role_name = ''targets'', keys = [], delegations = []\<rparr>"

text \<open>
  Modelled from the spec: \<^verbatim>\<open>policy.AddDelegation\<close>, which is missing. The reserved name
  is rejected before any other check; a name already present fails with
  \<open>DuplicateRuleName\<close>; a threshold below one or above the number of keys fails with
  \<open>InvalidThreshold\<close>; otherwise the delegation is appended at the end.
\<close>

definition add_delegation ::
  "TargetsMetadata \<Rightarrow> string \<Rightarrow> Key list \<Rightarrow> string list \<Rightarrow> int \<Rightarrow> error + TargetsMetadata" where
  "add_delegation doc name ks pats t =
     (if name = RootRoleName then Inl ErrInvalidPolicyName
      else if name \<in> set (rule_names doc) then Inl ErrDuplicatedRuleName
      else if t < 1 \<or> int (length ks) < t then Inl ErrInvalidThreshold
      else Inr (doc\<lparr>delegations := delegations doc @
                  [\<lparr>rule_name = name, authorized_keys = ks, patterns = pats, threshold = t\<rparr>]\<rparr>))"

text \<open>
  Modelled from the spec: \<^verbatim>\<open>policy.UpdateDelegation\<close>, which is missing. It fails with
  \<open>RuleNotFound\<close> if the name is absent and replaces the named delegation in place.
\<close>

definition update_delegation ::
  "TargetsMetadata \<Rightarrow> string \<Rightarrow> Key list \<Rightarrow> string list \<Rightarrow> int \<Rightarrow> error + TargetsMetadata" where
  "update_delegation doc name ks pats t =
     (if name = RootRoleName then Inl ErrInvalidPolicyName
      else if name \<notin> set (rule_names doc) then Inl ErrRuleNotFound
      else Inr (doc\<lparr>delegations :=
                  map (\<lambda>d. if rule_name d = name
                           then \<lparr>rule_name = name, authorized_keys = ks, patterns = pats, threshold = t\<rparr>
                           else d)
                    (delegations doc)\<rparr>))"

text \<open>
  Modelled from the spec: \<^verbatim>\<open>policy.RemoveDelegation\<close>, which is missing. It fails with
  \<open>RuleNotFound\<close> if the name is absent and drops the named delegation.
\<close>

definition remove_delegation :: "TargetsMetadata \<Rightarrow> string \<Rightarrow> error + TargetsMetadata" where
  "remove_delegation doc name =
     (if name = RootRoleName then Inl ErrInvalidPolicyName
      else if name \<notin> set (rule_names doc) then Inl ErrRuleNotFound
      else Inr (doc\<lparr>delegations := filter (\<lambda>d. rule_name d \<noteq> name) (delegations doc)\<rparr>))"

text \<open>
  Modelled from the spec: \<^verbatim>\<open>policy.AddKeyToTargets\<close>, which is missing. It adds the keys
  to the role's own signer set, keys being compared by key id, and leaves the
  delegations alone.
\<close>

definition add_key :: "TargetsMetadata \<Rightarrow> Key list \<Rightarrow> error + TargetsMetadata" where
  "add_key doc ks =
     Inr (doc\<lparr>keys := keys doc @ filter (\<lambda>k. KeyID k \<notin> set (map KeyID (keys doc))) ks\<rparr>)"

text \<open>
  Modelled from the spec: \<^verbatim>\<open>dsse.CreateEnvelope\<close>, which is missing: the envelope of the
  metadata, with an empty signature list.
\<close>

definition create_envelope :: "TargetsMetadata \<Rightarrow> error + Env" where
  "create_envelope doc = Inr \<lparr>payload = doc, signatures = []\<rparr>"

text \<open>
  Modelled from the spec: how \<^verbatim>\<open>dsse.SignEnvelope\<close> adds a signature to the list. It
  appends \<open>(key_id, signature)\<close>; a signature of the same key id is replaced, not
  duplicated.
\<close>

definition put_signature :: "string \<Rightarrow> string \<Rightarrow> (string \<times> string) list \<Rightarrow> (string \<times> string) list" where
  "put_signature kid sg sigs =
     (if kid \<in> set (map fst sigs) then map (\<lambda>p. if fst p = kid then (kid, sg) else p) sigs
      else sigs @ [(kid, sg)])"

text \<open>
  Modelled from the spec: \<^verbatim>\<open>dsse.SignEnvelope\<close>, which is missing. It computes the
  signer's key id, signs the payload and adds the signature; the payload stays. The
  spec's envelope is never nil: on a nil envelope the model fails.
\<close>

definition sign_envelope :: "Env option \<Rightarrow> SignerVerifier \<Rightarrow> error + Env" where
  "sign_envelope env signer =
     (case env of
        None \<Rightarrow> Inl (ErrOther ''nil envelope'')
      | Some e \<Rightarrow>
          (case signer_KeyID signer of
             Inl err \<Rightarrow> Inl err
           | Inr kid \<Rightarrow>
               (case signer_Sign signer (payload e) of
                  Inl err \<Rightarrow> Inl err
                | Inr sg \<Rightarrow> Inr (e\<lparr>signatures := put_signature kid sg (signatures e)\<rparr>))))"

text \<open>
  Modelled from the spec: \<^verbatim>\<open>State.Commit\<close>, which is missing. It creates one commit on
  the staging reference holding all envelopes of the state, with the given message.
\<close>

definition commit ::
  "PolicyState \<Rightarrow> GitRepository \<Rightarrow> string \<Rightarrow> bool \<Rightarrow> error option \<times> GitRepository" where
  "commit state r message sign_commit =
     (None, \<lparr>commit_state = state, commit_message = message, commit_signed = sign_commit\<rparr> # r)"

definition spec_collaborators :: Collaborators where
  "spec_collaborators =
     \<lparr>policy_LoadCurrentState = load_current,
      state_HasTargetsRole = has_targets_role,
      state_HasRuleName = has_rule_name,
      state_GetTargetsMetadata = get_targets_metadata,
      policy_InitializeTargetsMetadata = initialize_targets,
      policy_AddDelegation = add_delegation,
      policy_UpdateDelegation = update_delegation,
      policy_RemoveDelegation = remove_delegation,
      policy_AddKeyToTargets = add_key,
      dsse_CreateEnvelope = create_envelope,
      dsse_SignEnvelope = sign_envelope,
      state_Commit = commit\<rparr>"

section \<open>A concrete repository\<close>

text \<open>
  The repository of the package's tests: a Root trusting key A, key B authorised for
  the top-level rule file, the rule file \<^verbatim>\<open>"targets"\<close> signed by B with the rule
  \<^verbatim>\<open>"protect-main"\<close> for key C, and a delegated rule file of that name.
\<close>

definition key_C :: Key where
  "key_C = \<lparr>KeyID = ''C'', KeyType = ''gpg'', Scheme = ''gpg'', Public = ''pubC''\<rparr>"

definition signer_B :: SignerVerifier where
  "signer_B = \<lparr>signer_KeyID = Inr ''B'', signer_Sign = (\<lambda>doc. Inr ''sigB'')\<rparr>"

definition signer_broken :: SignerVerifier where
  "signer_broken =
     \<lparr>signer_KeyID = Inl (ErrOther ''key id unavailable''), signer_Sign = (\<lambda>doc. Inr ''sig'')\<rparr>"

definition root_envelope :: "RootMetadata Envelope" where
  "root_envelope =
     \<lparr>payload = \<lparr>version = 1,
                 authorized_root_keys =
                   [\<lparr>KeyID = ''A'', KeyType = ''ed25519'', Scheme = ''ed25519'', Public = ''pubA''\<rparr>],
                 root_threshold = 1,
                 authorized_targets_keys =
                   [\<lparr>KeyID = ''B'', KeyType = ''ed25519'', Scheme = ''ed25519'', Public = ''pubB''\<rparr>],
                 targets_threshold = 1\<rparr>,
      signatures = [(''A'', ''sigA'')]\<rparr>"

definition protect_main :: Delegation where
  "protect_main =
     \<lparr>rule_name = ''protect-main'', authorized_keys = [key_C],
      patterns = [''git:refs/heads/main''], threshold = 1\<rparr>"

definition state_root_only :: PolicyState where
  "state_root_only =
     \<lparr>RootEnvelope = Some root_envelope, TargetsEnvelope = None, DelegationEnvelopes = None\<rparr>"

definition state_policy :: PolicyState where
  "state_policy =
     \<lparr>RootEnvelope = Some root_envelope,
      TargetsEnvelope =
        Some \<lparr>payload = \<lparr>role_name = ''targets'', keys = [], delegations = [protect_main]\<rparr>,
              signatures = [(''B'', ''sigB'')]\<rparr>,
      DelegationEnvelopes =
        Some [(''protect-main'',
               \<lparr>payload = \<lparr>role_name = ''targets'', keys = [], delegations = []\<rparr>,
                signatures = [(''C'', ''sigC'')]\<rparr>)]\<rparr>"

definition repo_root_only :: GitRepository where
  "repo_root_only =
     [\<lparr>commit_state = state_root_only, commit_message = ''Initialize root'', commit_signed = False\<rparr>]"

definition repo_policy :: GitRepository where
  "repo_policy =
     [\<lparr>commit_state = state_policy, commit_message = ''Initialize policy'', commit_signed = False\<rparr>]"

section \<open>The frame of a mutation\<close>

text \<open>
  What it means that \<open>state'\<close> is \<open>state\<close> with one envelope slot replaced by
  \<open>env\<close>: the slot is the top-level one for the name \<^verbatim>\<open>"targets"\<close> and the entry of
  the delegation map under the name otherwise; the Root envelope, the other kind of
  slot and every other entry of the map read as before.
\<close>

definition replaces_one_slot :: "PolicyState \<Rightarrow> string \<Rightarrow> Env \<Rightarrow> PolicyState \<Rightarrow> bool" where
  "replaces_one_slot state name env state' \<longleftrightarrow>
     RootEnvelope state' = RootEnvelope state
     \<and> (if name = TargetsRoleName
        then TargetsEnvelope state' = Some env
             \<and> (\<forall>other. delegation_envelope state' other = delegation_envelope state other)
        else delegation_envelope state' name = Some env
             \<and> TargetsEnvelope state' = TargetsEnvelope state
             \<and> (\<forall>other. other \<noteq> name \<longrightarrow>
                    delegation_envelope state' other = delegation_envelope state other))"

section \<open>When a mutator reaches the commit\<close>

text \<open>
  Each mutator is a chain of steps, and the tail call to \<^verbatim>\<open>state.Commit\<close> sits at the
  end of the chain. The lemmas of this section say, for each mutator, exactly when the
  call happens and with which arguments.
\<close>

lemma InitializeTargets_commit_iff:
  "InitializeTargets c r signer targetsRoleName signCommit = CommitCalled st msg b \<longleftrightarrow>
     targetsRoleName \<noteq> RootRoleName
     \<and> (\<exists>keyID state env0 env.
           signer_KeyID signer = Inr keyID
         \<and> policy_LoadCurrentState c r = Inr state
         \<and> \<not> state_HasTargetsRole c state targetsRoleName
         \<and> dsse_CreateEnvelope c (policy_InitializeTargetsMetadata c) = Inr env0
         \<and> dsse_SignEnvelope c (Some env0) signer = Inr env
         \<and> st = (if targetsRoleName = TargetsRoleName then state\<lparr>TargetsEnvelope := Some env\<rparr>
                  else state\<lparr>DelegationEnvelopes :=
                         Some (AList.update targetsRoleName env
                           (case DelegationEnvelopes state of None \<Rightarrow> [] | Some m \<Rightarrow> m))\<rparr>))
     \<and> msg = ''Initialize policy '' @ quoted targetsRoleName
     \<and> b = signCommit"
  unfolding InitializeTargets_def
  by (auto split: sum.splits)

lemma AddDelegation_commit_iff:
  "AddDelegation c r signer targetsRoleName ruleName ks ps t signCommit = CommitCalled st msg b \<longleftrightarrow>
     ruleName \<noteq> RootRoleName
     \<and> (\<exists>keyID state doc0 doc env0 env.
           signer_KeyID signer = Inr keyID
         \<and> policy_LoadCurrentState c r = Inr state
         \<and> \<not> state_HasRuleName c state ruleName
         \<and> state_HasTargetsRole c state targetsRoleName
         \<and> state_GetTargetsMetadata c state targetsRoleName = Inr doc0
         \<and> policy_AddDelegation c doc0 ruleName ks ps t = Inr doc
         \<and> dsse_CreateEnvelope c doc = Inr env0
         \<and> dsse_SignEnvelope c (Some env0) signer = Inr env
         \<and> set_envelope state targetsRoleName env = Some st)
     \<and> msg = ''Add rule '' @ quoted ruleName @ '' to policy '' @ quoted targetsRoleName
     \<and> b = signCommit"
  unfolding AddDelegation_def
  by (auto split: sum.splits option.splits)

lemma UpdateDelegation_commit_iff:
  "UpdateDelegation c r signer targetsRoleName ruleName ks ps t signCommit = CommitCalled st msg b \<longleftrightarrow>
     ruleName \<noteq> RootRoleName
     \<and> (\<exists>keyID state doc0 doc env0 env.
           signer_KeyID signer = Inr keyID
         \<and> policy_LoadCurrentState c r = Inr state
         \<and> state_HasTargetsRole c state targetsRoleName
         \<and> state_GetTargetsMetadata c state targetsRoleName = Inr doc0
         \<and> policy_UpdateDelegation c doc0 ruleName ks ps t = Inr doc
         \<and> dsse_CreateEnvelope c doc = Inr env0
         \<and> dsse_SignEnvelope c (Some env0) signer = Inr env
         \<and> set_envelope state targetsRoleName env = Some st)
     \<and> msg = ''Update rule '' @ quoted ruleName @ '' in policy '' @ quoted targetsRoleName
     \<and> b = signCommit"
  unfolding UpdateDelegation_def
  by (auto split: sum.splits option.splits)

lemma RemoveDelegation_commit_iff:
  "RemoveDelegation c r signer targetsRoleName ruleName signCommit = CommitCalled st msg b \<longleftrightarrow>
     (\<exists>keyID state doc0 doc env0 env.
           signer_KeyID signer = Inr keyID
         \<and> policy_LoadCurrentState c r = Inr state
         \<and> state_HasTargetsRole c state targetsRoleName
         \<and> state_GetTargetsMetadata c state targetsRoleName = Inr doc0
         \<and> policy_RemoveDelegation c doc0 ruleName = Inr doc
         \<and> dsse_CreateEnvelope c doc = Inr env0
         \<and> dsse_SignEnvelope c (Some env0) signer = Inr env
         \<and> set_envelope state targetsRoleName env = Some st)
     \<and> msg = ''Remove rule '' @ quoted ruleName @ '' from policy '' @ quoted targetsRoleName
     \<and> b = signCommit"
  unfolding RemoveDelegation_def
  by (auto split: sum.splits option.splits)

lemma AddKeyToTargets_commit_iff:
  "AddKeyToTargets c r signer targetsRoleName ks signCommit = CommitCalled st msg b \<longleftrightarrow>
     (\<exists>keyID state doc0 doc env0 env.
           signer_KeyID signer = Inr keyID
         \<and> policy_LoadCurrentState c r = Inr state
         \<and> state_HasTargetsRole c state targetsRoleName
         \<and> state_GetTargetsMetadata c state targetsRoleName = Inr doc0
         \<and> policy_AddKeyToTargets c doc0 ks = Inr doc
         \<and> dsse_CreateEnvelope c doc = Inr env0
         \<and> dsse_SignEnvelope c (Some env0) signer = Inr env
         \<and> set_envelope state targetsRoleName env = Some st)
     \<and> msg = ''Add keys to policy '' @ quoted targetsRoleName @ [CHR 0x0A] @ keyIDs_of ks
     \<and> b = signCommit"
  unfolding AddKeyToTargets_def Let_def
  by (auto split: sum.splits option.splits)

lemma SignTargets_commit_iff:
  "SignTargets c r signer targetsRoleName signCommit = CommitCalled st msg b \<longleftrightarrow>
     (\<exists>keyID state env.
           policy_LoadCurrentState c r = Inr state
         \<and> state_HasTargetsRole c state targetsRoleName
         \<and> signer_KeyID signer = Inr keyID
         \<and> dsse_SignEnvelope c (role_envelope state targetsRoleName) signer = Inr env
         \<and> set_envelope state targetsRoleName env = Some st
         \<and> msg = ''Add signature from key '' @ quoted keyID @ '' to policy ''
                   @ quoted targetsRoleName)
     \<and> b = signCommit"
  unfolding SignTargets_def role_envelope_def
  by (auto split: sum.splits option.splits)

text \<open>Both ways of storing the new envelope replace one slot.\<close>

lemma set_envelope_replaces_one_slot:
  "set_envelope state name env = Some state' \<Longrightarrow> replaces_one_slot state name env state'"
  by (auto simp: set_envelope_def replaces_one_slot_def delegation_envelope_def update_conv'
      split: if_splits option.splits)


section \<open>Unfolding the models\<close>

text \<open>The definitions a concrete run unfolds.\<close>

lemmas example_defs =
  spec_collaborators_def repo_root_only_def repo_policy_def state_root_only_def state_policy_def
  signer_B_def signer_broken_def load_current_def has_targets_role_def has_rule_name_def
  get_targets_metadata_def role_envelope_def delegation_envelope_def rule_names_def
  RootRoleName_def TargetsRoleName_def protect_main_def

lemmas spec_defs =
  add_delegation_def update_delegation_def remove_delegation_def add_key_def
  create_envelope_def sign_envelope_def put_signature_def commit_def initialize_targets_def
  set_envelope_def key_C_def

section \<open>The reserved name\<close>

text \<open>
  \<^verbatim>\<open>InitializeTargets\<close>, \<^verbatim>\<open>AddDelegation\<close> and \<^verbatim>\<open>UpdateDelegation\<close> open with the guard on
  the reserved name: whatever the collaborators, the signer and the other arguments
  are, the name \<^verbatim>\<open>"root"\<close> is refused with \<^verbatim>\<open>ErrInvalidPolicyName\<close>.
\<close>

lemma reserved_name_rejected_first:
  "InitializeTargets c r signer RootRoleName signCommit = Returned (Some ErrInvalidPolicyName)"
  "AddDelegation c r signer targetsRoleName RootRoleName ks ps t signCommit
     = Returned (Some ErrInvalidPolicyName)"
  "UpdateDelegation c r signer targetsRoleName RootRoleName ks ps t signCommit
     = Returned (Some ErrInvalidPolicyName)"
  by (simp_all add: InitializeTargets_def AddDelegation_def UpdateDelegation_def)

text \<open>
  Claim C1: every mutator that takes a rule or policy-file name refuses the name
  \<^verbatim>\<open>"root"\<close> with \<^verbatim>\<open>ErrInvalidPolicyName\<close> before any other check. \<^verbatim>\<open>RemoveDelegation\<close>
  has no such guard: on a repository that holds a Root and no rule file, removing the
  rule \<^verbatim>\<open>"root"\<close> from \<^verbatim>\<open>"targets"\<close> resolves the key id, loads the state and fails
  on the missing role with \<^verbatim>\<open>ErrMetadataNotFound\<close>.
\<close>

theorem RemoveDelegation_reserved_name_not_rejected:
  "RootRoleName = ''root'' \<and>
   RemoveDelegation spec_collaborators repo_root_only signer_B ''targets'' ''root'' False
     = Returned (Some ErrMetadataNotFound)"
  by (simp add: RemoveDelegation_def example_defs)

section \<open>Failures of the signer and of the envelope adapter\<close>

text \<open>
  Claim C2: when key-id resolution, envelope creation or envelope signing fails, the
  mutator returns that failure as a non-nil error. \<^verbatim>\<open>InitializeTargets\<close> with a signer
  whose \<^verbatim>\<open>KeyID()\<close> fails returns \<^verbatim>\<open>nil\<close>, whatever the repository and the other
  collaborators are: the branch reads \<^verbatim>\<open>return nil\<close>.
\<close>

theorem InitializeTargets_signer_failure_returns_nil:
  "signer_KeyID signer_broken = Inl (ErrOther ''key id unavailable'') \<and>
   InitializeTargets c r signer_broken ''targets'' signCommit = Returned None"
  by (simp add: InitializeTargets_def signer_broken_def RootRoleName_def)

text \<open>
  The same \<^verbatim>\<open>return nil\<close> stands in every branch below; \<^verbatim>\<open>SignTargets\<close> returns the
  error in all of its branches, and \<^verbatim>\<open>AddKeyToTargets\<close> in those of the envelope.
\<close>

lemma signer_failure_returns_nil:
  assumes "signer_KeyID signer = Inl err"
  shows "targetsRoleName \<noteq> RootRoleName \<Longrightarrow>
           InitializeTargets c r signer targetsRoleName signCommit = Returned None"
    and "ruleName \<noteq> RootRoleName \<Longrightarrow>
           AddDelegation c r signer targetsRoleName ruleName ks ps t signCommit = Returned None"
    and "ruleName \<noteq> RootRoleName \<Longrightarrow>
           UpdateDelegation c r signer targetsRoleName ruleName ks ps t signCommit = Returned None"
    and "RemoveDelegation c r signer targetsRoleName ruleName signCommit = Returned None"
    and "AddKeyToTargets c r signer targetsRoleName ks signCommit = Returned None"
  using assms
  by (simp_all add: InitializeTargets_def AddDelegation_def UpdateDelegation_def
      RemoveDelegation_def AddKeyToTargets_def)

lemma SignTargets_signer_failure_returned:
  assumes "policy_LoadCurrentState c r = Inr state"
    and "state_HasTargetsRole c state targetsRoleName"
    and "signer_KeyID signer = Inl err"
  shows "SignTargets c r signer targetsRoleName signCommit = Returned (Some err)"
  using assms by (simp add: SignTargets_def)

lemma InitializeTargets_envelope_failure_returns_nil:
  assumes "targetsRoleName \<noteq> RootRoleName"
    and "signer_KeyID signer = Inr keyID"
    and "policy_LoadCurrentState c r = Inr state"
    and "\<not> state_HasTargetsRole c state targetsRoleName"
    and "dsse_CreateEnvelope c (policy_InitializeTargetsMetadata c) = Inl err
         \<or> (\<exists>env0. dsse_CreateEnvelope c (policy_InitializeTargetsMetadata c) = Inr env0
                   \<and> dsse_SignEnvelope c (Some env0) signer = Inl err)"
  shows "InitializeTargets c r signer targetsRoleName signCommit = Returned None"
  using assms by (auto simp: InitializeTargets_def)

section \<open>Initialising a role that exists\<close>

text \<open>
  Claim C7: for every loaded policy state in which a targets role of the given name
  already exists, \<^verbatim>\<open>InitializeTargets\<close> fails with \<^verbatim>\<open>ErrCannotReinitialize\<close> and writes
  nothing to the staging reference. The state is loaded by the call itself, after the
  guard on the reserved name and the resolution of the key id: these are the first two
  hypotheses. The role exists when \<^verbatim>\<open>state.HasTargetsRole\<close> says so.
\<close>

theorem InitializeTargets_existing_role:
  assumes "targetsRoleName \<noteq> RootRoleName"
    and "signer_KeyID signer = Inr keyID"
    and "policy_LoadCurrentState c r = Inr state"
    and "state_HasTargetsRole c state targetsRoleName"
  shows "InitializeTargets c r signer targetsRoleName signCommit
           = Returned (Some ErrCannotReinitialize)
         \<and> run c r (InitializeTargets c r signer targetsRoleName signCommit)
             = (Some (Some ErrCannotReinitialize), r)"
  using assms by (simp add: InitializeTargets_def)

theorem InitializeTargets_existing_role_witness:
  "''targets'' \<noteq> RootRoleName
   \<and> signer_KeyID signer_B = Inr ''B''
   \<and> policy_LoadCurrentState spec_collaborators repo_policy = Inr state_policy
   \<and> state_HasTargetsRole spec_collaborators state_policy ''targets''
   \<and> InitializeTargets spec_collaborators repo_policy signer_B ''targets'' True
        = Returned (Some ErrCannotReinitialize)
   \<and> run spec_collaborators repo_policy
        (InitializeTargets spec_collaborators repo_policy signer_B ''targets'' True)
        = (Some (Some ErrCannotReinitialize), repo_policy)"
proof -
  have h1: "''targets'' \<noteq> RootRoleName" by (simp add: RootRoleName_def)
  have h2: "signer_KeyID signer_B = Inr ''B''" by (simp add: signer_B_def)
  have h3: "policy_LoadCurrentState spec_collaborators repo_policy = Inr state_policy"
    by (simp add: spec_collaborators_def load_current_def repo_policy_def state_policy_def)
  have h4: "state_HasTargetsRole spec_collaborators state_policy ''targets''"
    by (simp add: spec_collaborators_def has_targets_role_def role_envelope_def
        TargetsRoleName_def state_policy_def)
  show ?thesis
    using h1 h2 h3 h4 InitializeTargets_existing_role [OF h1 h2 h3 h4, of True] by simp
qed

section \<open>The order of the checks of AddDelegation\<close>

text \<open>
  Claim C10: in \<^verbatim>\<open>AddDelegation\<close> the duplicate-rule-name check precedes the check that
  the target role exists. For a rule name that \<^verbatim>\<open>state.HasRuleName\<close> finds in the loaded
  state and a target role that \<^verbatim>\<open>state.HasTargetsRole\<close> does not find, the result is
  \<^verbatim>\<open>ErrDuplicatedRuleName\<close>, not \<^verbatim>\<open>ErrMetadataNotFound\<close>.
\<close>

theorem AddDelegation_duplicate_before_missing_role:
  assumes "ruleName \<noteq> RootRoleName"
    and "signer_KeyID signer = Inr keyID"
    and "policy_LoadCurrentState c r = Inr state"
    and "state_HasRuleName c state ruleName"
    and "\<not> state_HasTargetsRole c state targetsRoleName"
  shows "AddDelegation c r signer targetsRoleName ruleName authorizedKeys rulePatterns thr signCommit
           = Returned (Some ErrDuplicatedRuleName)
         \<and> AddDelegation c r signer targetsRoleName ruleName authorizedKeys rulePatterns thr signCommit
           \<noteq> Returned (Some ErrMetadataNotFound)"
  using assms by (simp add: AddDelegation_def)

theorem AddDelegation_duplicate_before_missing_role_witness:
  "''protect-main'' \<noteq> RootRoleName
   \<and> signer_KeyID signer_B = Inr ''B''
   \<and> policy_LoadCurrentState spec_collaborators repo_policy = Inr state_policy
   \<and> state_HasRuleName spec_collaborators state_policy ''protect-main''
   \<and> \<not> state_HasTargetsRole spec_collaborators state_policy ''release''
   \<and> AddDelegation spec_collaborators repo_policy signer_B ''release'' ''protect-main''
        [key_C] [''git:refs/heads/main''] 1 False
        = Returned (Some ErrDuplicatedRuleName)"
proof -
  have h1: "''protect-main'' \<noteq> RootRoleName" by (simp add: RootRoleName_def)
  have h2: "signer_KeyID signer_B = Inr ''B''" by (simp add: signer_B_def)
  have h3: "policy_LoadCurrentState spec_collaborators repo_policy = Inr state_policy"
    by (simp add: spec_collaborators_def load_current_def repo_policy_def state_policy_def)
  have h4: "state_HasRuleName spec_collaborators state_policy ''protect-main''"
    by (simp add: spec_collaborators_def has_rule_name_def rule_names_def state_policy_def
        protect_main_def)
  have h5: "\<not> state_HasTargetsRole spec_collaborators state_policy ''release''"
    by (simp add: spec_collaborators_def has_targets_role_def role_envelope_def
        delegation_envelope_def TargetsRoleName_def state_policy_def)
  show ?thesis
    using h1 h2 h3 h4 h5
      AddDelegation_duplicate_before_missing_role [OF h1 h2 h3 h4 h5,
        of "[key_C]" "[''git:refs/heads/main'']" 1 False]
    by simp
qed

section \<open>Commit messages\<close>

text \<open>
  Claim C8: each successful mutation commits with a message that matches the fixed
  template of its operation: \<^verbatim>\<open>Initialize policy '<role>'\<close>,
  \<^verbatim>\<open>Add rule '<rule>' to policy '<role>'\<close>, \<^verbatim>\<open>Update rule '<rule>' in policy '<role>'\<close>
  and \<^verbatim>\<open>Remove rule '<rule>' from policy '<role>'\<close>. Whenever the mutator reaches
  \<^verbatim>\<open>state.Commit\<close>, the message it passes is the template filled with its string
  arguments (\<open>CHR 0x27\<close> is the single quote).
\<close>

theorem commit_message_templates:
  "(InitializeTargets c r signer targetsRoleName signCommit = CommitCalled st msg b
      \<longrightarrow> msg = ''Initialize policy '' @ [CHR 0x27] @ targetsRoleName @ [CHR 0x27])
   \<and> (AddDelegation c r signer targetsRoleName ruleName ks ps t signCommit = CommitCalled st msg b
      \<longrightarrow> msg = ''Add rule '' @ [CHR 0x27] @ ruleName @ [CHR 0x27] @ '' to policy ''
                 @ [CHR 0x27] @ targetsRoleName @ [CHR 0x27])
   \<and> (UpdateDelegation c r signer targetsRoleName ruleName ks ps t signCommit = CommitCalled st msg b
      \<longrightarrow> msg = ''Update rule '' @ [CHR 0x27] @ ruleName @ [CHR 0x27] @ '' in policy ''
                 @ [CHR 0x27] @ targetsRoleName @ [CHR 0x27])
   \<and> (RemoveDelegation c r signer targetsRoleName ruleName signCommit = CommitCalled st msg b
      \<longrightarrow> msg = ''Remove rule '' @ [CHR 0x27] @ ruleName @ [CHR 0x27] @ '' from policy ''
                 @ [CHR 0x27] @ targetsRoleName @ [CHR 0x27])"
  by (simp add: InitializeTargets_commit_iff AddDelegation_commit_iff UpdateDelegation_commit_iff
      RemoveDelegation_commit_iff quoted_def)

theorem commit_message_templates_witness:
  "(case InitializeTargets spec_collaborators repo_root_only signer_B ''targets'' False of
      CommitCalled st msg b \<Rightarrow> msg = ''Initialize policy 'targets'' @ [CHR 0x27]
    | _ \<Rightarrow> False)
   \<and> (case AddDelegation spec_collaborators repo_policy signer_B ''targets'' ''protect-dev''
             [key_C] [''git:refs/heads/dev''] 1 False of
      CommitCalled st msg b \<Rightarrow> msg = ''Add rule 'protect-dev' to policy 'targets'' @ [CHR 0x27]
    | _ \<Rightarrow> False)
   \<and> (case UpdateDelegation spec_collaborators repo_policy signer_B ''targets'' ''protect-main''
             [key_C] [''git:refs/heads/*''] 1 False of
      CommitCalled st msg b \<Rightarrow> msg = ''Update rule 'protect-main' in policy 'targets'' @ [CHR 0x27]
    | _ \<Rightarrow> False)
   \<and> (case RemoveDelegation spec_collaborators repo_policy signer_B ''targets'' ''protect-main''
             False of
      CommitCalled st msg b \<Rightarrow> msg = ''Remove rule 'protect-main' from policy 'targets'' @ [CHR 0x27]
    | _ \<Rightarrow> False)"
proof -
  have "\<exists>st1 msg1. InitializeTargets spec_collaborators repo_root_only signer_B ''targets'' False
       = CommitCalled st1 msg1 False"
    by (simp add: InitializeTargets_def example_defs spec_defs)
  then obtain st1 msg1 where h1:
    "InitializeTargets spec_collaborators repo_root_only signer_B ''targets'' False
       = CommitCalled st1 msg1 False"
    by blast
  have "\<exists>st2 msg2. AddDelegation spec_collaborators repo_policy signer_B ''targets'' ''protect-dev''
       [key_C] [''git:refs/heads/dev''] 1 False = CommitCalled st2 msg2 False"
    by (simp add: AddDelegation_def example_defs spec_defs)
  then obtain st2 msg2 where h2:
    "AddDelegation spec_collaborators repo_policy signer_B ''targets'' ''protect-dev''
       [key_C] [''git:refs/heads/dev''] 1 False = CommitCalled st2 msg2 False"
    by blast
  have "\<exists>st3 msg3. UpdateDelegation spec_collaborators repo_policy signer_B ''targets'' ''protect-main''
       [key_C] [''git:refs/heads/*''] 1 False = CommitCalled st3 msg3 False"
    by (simp add: UpdateDelegation_def example_defs spec_defs)
  then obtain st3 msg3 where h3:
    "UpdateDelegation spec_collaborators repo_policy signer_B ''targets'' ''protect-main''
       [key_C] [''git:refs/heads/*''] 1 False = CommitCalled st3 msg3 False"
    by blast
  have "\<exists>st4 msg4. RemoveDelegation spec_collaborators repo_policy signer_B ''targets'' ''protect-main'' False
       = CommitCalled st4 msg4 False"
    by (simp add: RemoveDelegation_def example_defs spec_defs)
  then obtain st4 msg4 where h4:
    "RemoveDelegation spec_collaborators repo_policy signer_B ''targets'' ''protect-main'' False
       = CommitCalled st4 msg4 False"
    by blast
  note m1 = commit_message_templates [THEN conjunct1, rule_format, OF h1]
  note m2 = commit_message_templates [THEN conjunct2, THEN conjunct1, rule_format, OF h2]
  note m3 = commit_message_templates
    [THEN conjunct2, THEN conjunct2, THEN conjunct1, rule_format, OF h3]
  note m4 = commit_message_templates
    [THEN conjunct2, THEN conjunct2, THEN conjunct2, rule_format, OF h4]
  show ?thesis
    using m1 m2 m3 m4 by (simp add: h1 h2 h3 h4)
qed

section \<open>No commit unless every step succeeded\<close>

text \<open>An outcome that is not the call to \<^verbatim>\<open>state.Commit\<close> leaves the repository as it was.\<close>

lemma run_without_commit:
  "(\<forall>st msg b. out \<noteq> CommitCalled st msg b) \<Longrightarrow> snd (run c r out) = r"
  by (cases out) (simp, simp, blast)

text \<open>
  Claim C3: for every policy mutation and every input, if a precondition check, the
  metadata transformation, the envelope creation or the signing fails, the mutator
  returns before \<^verbatim>\<open>state.Commit\<close> is invoked, so the staging reference is left
  untouched; a commit is written only when every prior step succeeded. For each
  mutator: if it reaches \<^verbatim>\<open>state.Commit\<close>, then the name guard passed, the key id was
  resolved, the state was loaded, the checks on the state passed and every collaborator
  on the way returned a result. For any outcome \<open>out\<close> of a mutator that is not the
  call to \<^verbatim>\<open>state.Commit\<close>, the repository after the run is the repository before.
\<close>

theorem commit_only_after_every_step:
  "(InitializeTargets c r signer targetsRoleName signCommit = CommitCalled st msg b \<longrightarrow>
      targetsRoleName \<noteq> RootRoleName
      \<and> (\<exists>keyID state env0 env.
            signer_KeyID signer = Inr keyID
          \<and> policy_LoadCurrentState c r = Inr state
          \<and> \<not> state_HasTargetsRole c state targetsRoleName
          \<and> dsse_CreateEnvelope c (policy_InitializeTargetsMetadata c) = Inr env0
          \<and> dsse_SignEnvelope c (Some env0) signer = Inr env))
   \<and> (AddDelegation c r signer targetsRoleName ruleName ks ps t signCommit = CommitCalled st msg b \<longrightarrow>
      ruleName \<noteq> RootRoleName
      \<and> (\<exists>keyID state doc0 doc env0 env.
            signer_KeyID signer = Inr keyID
          \<and> policy_LoadCurrentState c r = Inr state
          \<and> \<not> state_HasRuleName c state ruleName
          \<and> state_HasTargetsRole c state targetsRoleName
          \<and> state_GetTargetsMetadata c state targetsRoleName = Inr doc0
          \<and> policy_AddDelegation c doc0 ruleName ks ps t = Inr doc
          \<and> dsse_CreateEnvelope c doc = Inr env0
          \<and> dsse_SignEnvelope c (Some env0) signer = Inr env))
   \<and> (UpdateDelegation c r signer targetsRoleName ruleName ks ps t signCommit = CommitCalled st msg b \<longrightarrow>
      ruleName \<noteq> RootRoleName
      \<and> (\<exists>keyID state doc0 doc env0 env.
            signer_KeyID signer = Inr keyID
          \<and> policy_LoadCurrentState c r = Inr state
          \<and> state_HasTargetsRole c state targetsRoleName
          \<and> state_GetTargetsMetadata c state targetsRoleName = Inr doc0
          \<and> policy_UpdateDelegation c doc0 ruleName ks ps t = Inr doc
          \<and> dsse_CreateEnvelope c doc = Inr env0
          \<and> dsse_SignEnvelope c (Some env0) signer = Inr env))
   \<and> (RemoveDelegation c r signer targetsRoleName ruleName signCommit = CommitCalled st msg b \<longrightarrow>
        (\<exists>keyID state doc0 doc env0 env.
            signer_KeyID signer = Inr keyID
          \<and> policy_LoadCurrentState c r = Inr state
          \<and> state_HasTargetsRole c state targetsRoleName
          \<and> state_GetTargetsMetadata c state targetsRoleName = Inr doc0
          \<and> policy_RemoveDelegation c doc0 ruleName = Inr doc
          \<and> dsse_CreateEnvelope c doc = Inr env0
          \<and> dsse_SignEnvelope c (Some env0) signer = Inr env))
   \<and> (AddKeyToTargets c r signer targetsRoleName ks signCommit = CommitCalled st msg b \<longrightarrow>
        (\<exists>keyID state doc0 doc env0 env.
            signer_KeyID signer = Inr keyID
          \<and> policy_LoadCurrentState c r = Inr state
          \<and> state_HasTargetsRole c state targetsRoleName
          \<and> state_GetTargetsMetadata c state targetsRoleName = Inr doc0
          \<and> policy_AddKeyToTargets c doc0 ks = Inr doc
          \<and> dsse_CreateEnvelope c doc = Inr env0
          \<and> dsse_SignEnvelope c (Some env0) signer = Inr env))
   \<and> (SignTargets c r signer targetsRoleName signCommit = CommitCalled st msg b \<longrightarrow>
        (\<exists>keyID state env.
            policy_LoadCurrentState c r = Inr state
          \<and> state_HasTargetsRole c state targetsRoleName
          \<and> signer_KeyID signer = Inr keyID
          \<and> dsse_SignEnvelope c (role_envelope state targetsRoleName) signer = Inr env))
   \<and> ((\<forall>st' msg' b'. out \<noteq> CommitCalled st' msg' b') \<longrightarrow> snd (run c r out) = r)"
proof (intro conjI impI)
  assume "\<forall>st' msg' b'. out \<noteq> CommitCalled st' msg' b'"
  then show "snd (run c r out) = r" by (rule run_without_commit)
qed (simp_all only: InitializeTargets_commit_iff AddDelegation_commit_iff
      UpdateDelegation_commit_iff RemoveDelegation_commit_iff AddKeyToTargets_commit_iff
      SignTargets_commit_iff, blast+)

theorem commit_only_after_every_step_witness:
  "(\<exists>st msg. AddDelegation spec_collaborators repo_policy signer_B ''targets'' ''protect-dev''
              [key_C] [''git:refs/heads/dev''] 1 False = CommitCalled st msg False)
   \<and> ''protect-dev'' \<noteq> RootRoleName
   \<and> (\<exists>keyID state doc0 doc env0 env.
          signer_KeyID signer_B = Inr keyID
        \<and> policy_LoadCurrentState spec_collaborators repo_policy = Inr state
        \<and> \<not> state_HasRuleName spec_collaborators state ''protect-dev''
        \<and> state_HasTargetsRole spec_collaborators state ''targets''
        \<and> state_GetTargetsMetadata spec_collaborators state ''targets'' = Inr doc0
        \<and> policy_AddDelegation spec_collaborators doc0 ''protect-dev''
              [key_C] [''git:refs/heads/dev''] 1 = Inr doc
        \<and> dsse_CreateEnvelope spec_collaborators doc = Inr env0
        \<and> dsse_SignEnvelope spec_collaborators (Some env0) signer_B = Inr env)
   \<and> (\<forall>st msg b. InitializeTargets spec_collaborators repo_root_only signer_broken ''targets'' False
          \<noteq> CommitCalled st msg b)
   \<and> snd (run spec_collaborators repo_root_only
            (InitializeTargets spec_collaborators repo_root_only signer_broken ''targets'' False))
       = repo_root_only"
proof -
  have e: "\<exists>st msg. AddDelegation spec_collaborators repo_policy signer_B ''targets''
             ''protect-dev'' [key_C] [''git:refs/heads/dev''] 1 False = CommitCalled st msg False"
    by (simp add: AddDelegation_def example_defs spec_defs)
  then obtain st msg where h:
    "AddDelegation spec_collaborators repo_policy signer_B ''targets''
       ''protect-dev'' [key_C] [''git:refs/heads/dev''] 1 False = CommitCalled st msg False"
    by blast
  have n: "\<forall>st msg b. InitializeTargets spec_collaborators repo_root_only signer_broken
             ''targets'' False \<noteq> CommitCalled st msg b"
    by (simp add: InitializeTargets_def example_defs)
  note steps = commit_only_after_every_step
    [THEN conjunct2, THEN conjunct1, rule_format, OF h]
  note untouched = commit_only_after_every_step
    [THEN conjunct2, THEN conjunct2, THEN conjunct2, THEN conjunct2, THEN conjunct2,
     THEN conjunct2, THEN mp, OF n, of spec_collaborators repo_root_only]
  show ?thesis
    using e steps n untouched by blast
qed

section \<open>One envelope slot is replaced\<close>



section \<open>A role that does not exist\<close>

text \<open>
  Claim C6: for each of \<^verbatim>\<open>AddDelegation\<close>, \<^verbatim>\<open>UpdateDelegation\<close>, \<^verbatim>\<open>RemoveDelegation\<close>,
  \<^verbatim>\<open>AddKeyToTargets\<close> and \<^verbatim>\<open>SignTargets\<close>, if the loaded state contains no targets role
  of the given name, the operation fails with \<^verbatim>\<open>ErrMetadataNotFound\<close>. As stated, the
  claim fails for \<^verbatim>\<open>AddDelegation\<close>: adding the existing rule \<^verbatim>\<open>"protect-main"\<close> to the
  missing role \<^verbatim>\<open>"release"\<close> gives \<^verbatim>\<open>ErrDuplicatedRuleName\<close>.
\<close>

theorem AddDelegation_missing_role_duplicate_rule:
  "policy_LoadCurrentState spec_collaborators repo_policy = Inr state_policy
   \<and> \<not> state_HasTargetsRole spec_collaborators state_policy ''release''
   \<and> AddDelegation spec_collaborators repo_policy signer_B ''release'' ''protect-main''
        [key_C] [''git:refs/heads/main''] 1 False
       = Returned (Some ErrDuplicatedRuleName)
   \<and> AddDelegation spec_collaborators repo_policy signer_B ''release'' ''protect-main''
        [key_C] [''git:refs/heads/main''] 1 False
       \<noteq> Returned (Some ErrMetadataNotFound)"
  by (simp add: AddDelegation_def example_defs)

text \<open>
  Claim C6, amended: if the state the operation loaded contains no targets role of the
  given name, then \<^verbatim>\<open>UpdateDelegation\<close>, \<^verbatim>\<open>RemoveDelegation\<close>, \<^verbatim>\<open>AddKeyToTargets\<close> and
  \<^verbatim>\<open>SignTargets\<close> fail with \<^verbatim>\<open>ErrMetadataNotFound\<close>, and so does \<^verbatim>\<open>AddDelegation\<close> when
  the rule name does not already occur in the loaded state. \<^verbatim>\<open>SignTargets\<close> loads the
  state first; the others load it after the key id is resolved, and \<^verbatim>\<open>AddDelegation\<close>
  and \<^verbatim>\<open>UpdateDelegation\<close> after the guard on the reserved rule name.
\<close>

theorem missing_role_not_found:
  assumes "policy_LoadCurrentState c r = Inr state"
    and "\<not> state_HasTargetsRole c state targetsRoleName"
  shows "SignTargets c r signer targetsRoleName signCommit = Returned (Some ErrMetadataNotFound)
     \<and> (signer_KeyID signer = Inr keyID \<longrightarrow>
          RemoveDelegation c r signer targetsRoleName ruleName signCommit
            = Returned (Some ErrMetadataNotFound)
        \<and> AddKeyToTargets c r signer targetsRoleName ks signCommit
            = Returned (Some ErrMetadataNotFound)
        \<and> (ruleName \<noteq> RootRoleName \<longrightarrow>
             UpdateDelegation c r signer targetsRoleName ruleName ks ps t signCommit
               = Returned (Some ErrMetadataNotFound)
           \<and> (\<not> state_HasRuleName c state ruleName \<longrightarrow>
                AddDelegation c r signer targetsRoleName ruleName ks ps t signCommit
                  = Returned (Some ErrMetadataNotFound))))"
  using assms
  by (simp add: SignTargets_def RemoveDelegation_def AddKeyToTargets_def UpdateDelegation_def
      AddDelegation_def)

theorem missing_role_not_found_witness:
  "policy_LoadCurrentState spec_collaborators repo_policy = Inr state_policy
   \<and> \<not> state_HasTargetsRole spec_collaborators state_policy ''release''
   \<and> signer_KeyID signer_B = Inr ''B''
   \<and> ''protect-dev'' \<noteq> RootRoleName
   \<and> \<not> state_HasRuleName spec_collaborators state_policy ''protect-dev''
   \<and> SignTargets spec_collaborators repo_policy signer_B ''release'' False
       = Returned (Some ErrMetadataNotFound)
   \<and> RemoveDelegation spec_collaborators repo_policy signer_B ''release'' ''protect-dev'' False
       = Returned (Some ErrMetadataNotFound)
   \<and> AddKeyToTargets spec_collaborators repo_policy signer_B ''release'' [key_C] False
       = Returned (Some ErrMetadataNotFound)
   \<and> UpdateDelegation spec_collaborators repo_policy signer_B ''release'' ''protect-dev''
        [key_C] [''git:refs/heads/dev''] 1 False
       = Returned (Some ErrMetadataNotFound)
   \<and> AddDelegation spec_collaborators repo_policy signer_B ''release'' ''protect-dev''
        [key_C] [''git:refs/heads/dev''] 1 False
       = Returned (Some ErrMetadataNotFound)"
proof -
  have h1: "policy_LoadCurrentState spec_collaborators repo_policy = Inr state_policy"
    by (simp add: spec_collaborators_def load_current_def repo_policy_def state_policy_def)
  have h2: "\<not> state_HasTargetsRole spec_collaborators state_policy ''release''"
    by (simp add: spec_collaborators_def has_targets_role_def role_envelope_def
        delegation_envelope_def TargetsRoleName_def state_policy_def)
  have h3: "signer_KeyID signer_B = Inr ''B''" by (simp add: signer_B_def)
  have h4: "''protect-dev'' \<noteq> RootRoleName" by (simp add: RootRoleName_def)
  have h5: "\<not> state_HasRuleName spec_collaborators state_policy ''protect-dev''"
    by (simp add: spec_collaborators_def has_rule_name_def rule_names_def state_policy_def
        protect_main_def)
  show ?thesis
    using h1 h2 h3 h4 h5
      missing_role_not_found [OF h1 h2, of signer_B False "''B''" "''protect-dev''"
        "[key_C]" "[''git:refs/heads/dev'']" 1]
    by simp
qed

section \<open>Rule names are unique across the delegation graph\<close>

lemma has_rule_name_intro:
  assumes "TargetsEnvelope state = Some e \<or> delegation_envelope state role = Some e"
    and "name \<in> set (rule_names (payload e))"
  shows "has_rule_name state name"
  using assms(1)
proof
  assume "TargetsEnvelope state = Some e"
  with assms(2) show ?thesis by (simp add: has_rule_name_def)
next
  assume d: "delegation_envelope state role = Some e"
  then obtain m where m: "DelegationEnvelopes state = Some m" "map_of m role = Some e"
    by (auto simp: delegation_envelope_def split: option.splits)
  from m(2) have "role \<in> set (map fst m)"
    by (metis map_of_eq_None_iff option.distinct(1) set_map)
  with m(2) assms(2)
  have "list_ex (\<lambda>k. case map_of m k of
                         None \<Rightarrow> False
                       | Some e \<Rightarrow> name \<in> set (rule_names (payload e)))
          (map fst m)"
    unfolding list_ex_iff by (intro bexI [of _ role]) simp_all
  with m(1) show ?thesis by (simp add: has_rule_name_def)
qed

lemma slot_holds_envelope:
  "replaces_one_slot state name env state' \<Longrightarrow>
     TargetsEnvelope state' = Some env \<or> delegation_envelope state' name = Some env"
  by (auto simp: replaces_one_slot_def split: if_splits)

lemma load_current_tip:
  "load_current r = Inr state \<Longrightarrow> RootEnvelope state' = RootEnvelope state \<Longrightarrow>
     load_current (\<lparr>commit_state = state', commit_message = msg, commit_signed = b\<rparr> # r) = Inr state'"
  by (auto simp: load_current_def split: list.splits option.splits)

lemma add_delegation_has_rule:
  "add_delegation doc0 name ks ps t = Inr doc \<Longrightarrow> name \<in> set (rule_names doc)"
  by (auto simp: add_delegation_def rule_names_def split: if_splits)

lemma sign_envelope_payload:
  "sign_envelope (Some e) signer = Inr e' \<Longrightarrow> payload e' = payload e"
  by (auto simp: sign_envelope_def split: sum.splits)

lemma AddDelegation_duplicate:
  assumes "ruleName \<noteq> RootRoleName"
    and "signer_KeyID signer = Inr keyID"
    and "policy_LoadCurrentState c r = Inr state"
    and "state_HasRuleName c state ruleName"
  shows "AddDelegation c r signer targetsRoleName ruleName ks ps t signCommit
           = Returned (Some ErrDuplicatedRuleName)"
  using assms by (simp add: AddDelegation_def)

lemma second_AddDelegation_fails:
  assumes first: "AddDelegation spec_collaborators r0 signer1 role1 ruleName ks1 ps1 t1 sc1
                    = CommitCalled st msg b"
    and ran: "run spec_collaborators r0 (CommitCalled st msg b) = (res, r1)"
    and key: "signer_KeyID signer2 = Inr keyID2"
  shows "res = Some None
       \<and> AddDelegation spec_collaborators r1 signer2 role2 ruleName ks2 ps2 t2 sc2
           = Returned (Some ErrDuplicatedRuleName)"
proof -
  from first obtain state doc0 doc env0 env where
        nroot: "ruleName \<noteq> RootRoleName"
    and load: "load_current r0 = Inr state"
    and added: "add_delegation doc0 ruleName ks1 ps1 t1 = Inr doc"
    and created: "create_envelope doc = Inr env0"
    and signed: "sign_envelope (Some env0) signer1 = Inr env"
    and stored: "set_envelope state role1 env = Some st"
    unfolding AddDelegation_commit_iff by (auto simp: spec_collaborators_def)
  from created signed have "payload env = doc"
    by (auto simp: create_envelope_def dest: sign_envelope_payload)
  with added have rule: "ruleName \<in> set (rule_names (payload env))"
    by (simp add: add_delegation_has_rule)
  from stored have slot: "replaces_one_slot state role1 env st"
    by (rule set_envelope_replaces_one_slot)
  then have "has_rule_name st ruleName"
    using rule by (blast intro: has_rule_name_intro dest: slot_holds_envelope)
  moreover from ran have r1: "res = Some None"
      "r1 = \<lparr>commit_state = st, commit_message = msg, commit_signed = b\<rparr> # r0"
    by (auto simp: spec_collaborators_def commit_def)
  moreover from slot have "RootEnvelope st = RootEnvelope state"
    by (simp add: replaces_one_slot_def)
  with load have "load_current r1 = Inr st"
    unfolding r1 by (rule load_current_tip)
  ultimately show ?thesis
    using nroot key by (simp add: AddDelegation_duplicate spec_collaborators_def)
qed

text \<open>
  Claim C4: for every loaded policy state and every rule name that already occurs in
  any role's delegation list anywhere in the delegation graph, \<^verbatim>\<open>AddDelegation\<close> with
  that rule name fails with \<^verbatim>\<open>ErrDuplicatedRuleName\<close>, whichever target role is named; a
  second \<^verbatim>\<open>AddDelegation\<close> with a rule name that previously succeeded therefore fails on
  the same or a different role. First part: with \<^verbatim>\<open>state.HasRuleName\<close> as the spec has
  it, if the state the call loaded holds an envelope \<open>e\<close>, in the top-level slot or
  under any role \<open>otherRole\<close> of the delegation map, whose delegations contain the rule
  name, the result is \<^verbatim>\<open>ErrDuplicatedRuleName\<close> for every target role. Second part: with
  the collaborators as the spec has them, after an \<^verbatim>\<open>AddDelegation\<close> that reached the
  commit, the commit succeeds and any \<^verbatim>\<open>AddDelegation\<close> of the same rule name on the new
  repository, for any role \<open>role2\<close>, any keys, patterns and threshold, and any signer
  with a key id, fails with \<^verbatim>\<open>ErrDuplicatedRuleName\<close>.
\<close>

theorem AddDelegation_rule_names_unique:
  "(state_HasRuleName c = has_rule_name
      \<and> ruleName \<noteq> RootRoleName
      \<and> signer_KeyID signer = Inr keyID
      \<and> policy_LoadCurrentState c r = Inr state
      \<and> (TargetsEnvelope state = Some e \<or> delegation_envelope state otherRole = Some e)
      \<and> ruleName \<in> set (rule_names (payload e))
    \<longrightarrow> AddDelegation c r signer targetsRoleName ruleName ks ps t signCommit
          = Returned (Some ErrDuplicatedRuleName))
   \<and> (AddDelegation spec_collaborators r0 signer1 role1 ruleName ks1 ps1 t1 sc1
          = CommitCalled st msg b
      \<and> run spec_collaborators r0 (CommitCalled st msg b) = (res, r1)
      \<and> signer_KeyID signer2 = Inr keyID2
    \<longrightarrow> res = Some None
      \<and> AddDelegation spec_collaborators r1 signer2 role2 ruleName ks2 ps2 t2 sc2
          = Returned (Some ErrDuplicatedRuleName))"
proof (intro conjI impI)
  assume a: "state_HasRuleName c = has_rule_name
      \<and> ruleName \<noteq> RootRoleName
      \<and> signer_KeyID signer = Inr keyID
      \<and> policy_LoadCurrentState c r = Inr state
      \<and> (TargetsEnvelope state = Some e \<or> delegation_envelope state otherRole = Some e)
      \<and> ruleName \<in> set (rule_names (payload e))"
  then have "state_HasRuleName c state ruleName"
    by (auto intro: has_rule_name_intro)
  with a show "AddDelegation c r signer targetsRoleName ruleName ks ps t signCommit
          = Returned (Some ErrDuplicatedRuleName)"
    by (simp add: AddDelegation_duplicate)
next
  assume b: "AddDelegation spec_collaborators r0 signer1 role1 ruleName ks1 ps1 t1 sc1
          = CommitCalled st msg b
      \<and> run spec_collaborators r0 (CommitCalled st msg b) = (res, r1)
      \<and> signer_KeyID signer2 = Inr keyID2"
  then have f: "AddDelegation spec_collaborators r0 signer1 role1 ruleName ks1 ps1 t1 sc1
          = CommitCalled st msg b"
    and rn: "run spec_collaborators r0 (CommitCalled st msg b) = (res, r1)"
    and k: "signer_KeyID signer2 = Inr keyID2"
    by simp_all
  show "res = Some None"
    and "AddDelegation spec_collaborators r1 signer2 role2 ruleName ks2 ps2 t2 sc2
           = Returned (Some ErrDuplicatedRuleName)"
    using second_AddDelegation_fails [OF f rn k] by simp_all
qed

theorem AddDelegation_rule_names_unique_witness:
  "state_HasRuleName spec_collaborators = has_rule_name
   \<and> ''protect-main'' \<noteq> RootRoleName
   \<and> signer_KeyID signer_B = Inr ''B''
   \<and> policy_LoadCurrentState spec_collaborators repo_policy = Inr state_policy
   \<and> (\<exists>e. TargetsEnvelope state_policy = Some e
          \<and> ''protect-main'' \<in> set (rule_names (payload e)))
   \<and> AddDelegation spec_collaborators repo_policy signer_B ''protect-main'' ''protect-main''
        [key_C] [''git:refs/heads/main''] 1 False
       = Returned (Some ErrDuplicatedRuleName)
   \<and> (case AddDelegation spec_collaborators repo_policy signer_B ''targets'' ''protect-dev''
             [key_C] [''git:refs/heads/dev''] 1 False of
        CommitCalled st msg b \<Rightarrow>
          (case run spec_collaborators repo_policy (CommitCalled st msg b) of
             (res, r1) \<Rightarrow>
               res = Some None
               \<and> AddDelegation spec_collaborators r1 signer_B ''protect-main'' ''protect-dev''
                    [key_C] [''git:refs/heads/dev''] 1 False
                   = Returned (Some ErrDuplicatedRuleName))
      | _ \<Rightarrow> False)"
proof -
  have h1: "state_HasRuleName spec_collaborators = has_rule_name"
    by (simp add: spec_collaborators_def)
  have h2: "''protect-main'' \<noteq> RootRoleName" by (simp add: RootRoleName_def)
  have h3: "signer_KeyID signer_B = Inr ''B''" by (simp add: signer_B_def)
  have h4: "policy_LoadCurrentState spec_collaborators repo_policy = Inr state_policy"
    by (simp add: spec_collaborators_def load_current_def repo_policy_def state_policy_def)
  obtain e where h5: "TargetsEnvelope state_policy = Some e"
    and h6: "''protect-main'' \<in> set (rule_names (payload e))"
    by (simp add: state_policy_def rule_names_def protect_main_def)
  from h5 have h5': "TargetsEnvelope state_policy = Some e
                     \<or> delegation_envelope state_policy ''targets'' = Some e" ..
  note a = AddDelegation_rule_names_unique [THEN conjunct1, rule_format,
      OF conjI [OF h1 conjI [OF h2 conjI [OF h3 conjI [OF h4 conjI [OF h5' h6]]]]]]
  have "\<exists>st msg. AddDelegation spec_collaborators repo_policy signer_B ''targets''
          ''protect-dev'' [key_C] [''git:refs/heads/dev''] 1 False = CommitCalled st msg False"
    by (simp add: AddDelegation_def example_defs spec_defs)
  then obtain st msg where f:
    "AddDelegation spec_collaborators repo_policy signer_B ''targets''
       ''protect-dev'' [key_C] [''git:refs/heads/dev''] 1 False = CommitCalled st msg False"
    by blast
  obtain res r1 where rn:
    "run spec_collaborators repo_policy (CommitCalled st msg False) = (res, r1)"
    by (cases "run spec_collaborators repo_policy (CommitCalled st msg False)")
  note b = AddDelegation_rule_names_unique [THEN conjunct2, rule_format,
      OF conjI [OF f conjI [OF rn h3]]]
  show ?thesis
    using h1 h2 h3 h4 h5 h6 a b by (simp add: f rn del: run.simps)
qed

section \<open>Signing a rule file\<close>

lemma set_envelope_role_envelope:
  "set_envelope state name env = Some state' \<Longrightarrow> role_envelope state' name = Some env"
  by (auto simp: set_envelope_def role_envelope_def delegation_envelope_def update_conv'
      split: if_splits option.splits)

lemma SignTargets_ignores_CreateEnvelope:
  "SignTargets (c\<lparr>dsse_CreateEnvelope := f, state_GetTargetsMetadata := g\<rparr>) r signer
     targetsRoleName signCommit
   = SignTargets c r signer targetsRoleName signCommit"
  by (simp add: SignTargets_def split: sum.splits option.splits)

text \<open>
  Claim C5: \<^verbatim>\<open>SignTargets\<close> leaves the metadata payload of the named role's envelope
  unchanged: it signs the envelope already stored in the loaded state rather than
  creating a fresh one from re-serialised metadata, so only a signature is added and
  the metadata, its version included, is as before. When \<^verbatim>\<open>SignTargets\<close> reaches the
  commit, the envelope it has stored under the role is what \<^verbatim>\<open>dsse.SignEnvelope\<close>
  returned for the envelope the loaded state held under that role; with a
  \<^verbatim>\<open>dsse.SignEnvelope\<close> that keeps the payload of the envelope it signs, as the envelope
  adapter does, the payload stored is the payload loaded. The result of \<^verbatim>\<open>SignTargets\<close>
  does not depend on \<^verbatim>\<open>dsse.CreateEnvelope\<close> or \<^verbatim>\<open>state.GetTargetsMetadata\<close>: it calls
  neither.
\<close>

theorem SignTargets_keeps_payload:
  assumes "SignTargets c r signer targetsRoleName signCommit = CommitCalled st msg b"
    and "\<forall>e s e'. dsse_SignEnvelope c (Some e) s = Inr e' \<longrightarrow> payload e' = payload e"
  shows "(\<exists>state env.
            policy_LoadCurrentState c r = Inr state
          \<and> dsse_SignEnvelope c (role_envelope state targetsRoleName) signer = Inr env
          \<and> role_envelope st targetsRoleName = Some env
          \<and> (\<forall>old. role_envelope state targetsRoleName = Some old
                 \<longrightarrow> payload env = payload old))
       \<and> SignTargets (c\<lparr>dsse_CreateEnvelope := f, state_GetTargetsMetadata := g\<rparr>) r signer
            targetsRoleName signCommit
          = SignTargets c r signer targetsRoleName signCommit"
proof -
  from assms(1) obtain state env where
        l: "policy_LoadCurrentState c r = Inr state"
    and s: "dsse_SignEnvelope c (role_envelope state targetsRoleName) signer = Inr env"
    and w: "set_envelope state targetsRoleName env = Some st"
    unfolding SignTargets_commit_iff by blast
  from w have "role_envelope st targetsRoleName = Some env"
    by (rule set_envelope_role_envelope)
  moreover from s assms(2)
  have "\<forall>old. role_envelope state targetsRoleName = Some old \<longrightarrow> payload env = payload old"
    by auto
  ultimately show ?thesis
    using l s SignTargets_ignores_CreateEnvelope by blast
qed

theorem SignTargets_keeps_payload_witness:
  "\<not> (\<exists>e s e'. dsse_SignEnvelope spec_collaborators (Some e) s = Inr e'
                \<and> payload e' \<noteq> payload e)
   \<and> (case SignTargets spec_collaborators repo_policy signer_B ''protect-main'' False of
        CommitCalled st msg b \<Rightarrow>
          (case (role_envelope state_policy ''protect-main'', role_envelope st ''protect-main'') of
             (Some old, Some new) \<Rightarrow>
               payload new = payload old
               \<and> signatures old = [(''C'', ''sigC'')]
               \<and> signatures new = [(''C'', ''sigC''), (''B'', ''sigB'')]
           | _ \<Rightarrow> False)
      | _ \<Rightarrow> False)"
proof -
  have p: "\<forall>e s e'. dsse_SignEnvelope spec_collaborators (Some e) s = Inr e'
             \<longrightarrow> payload e' = payload e"
    by (auto simp: spec_collaborators_def dest: sign_envelope_payload)
  have l: "policy_LoadCurrentState spec_collaborators repo_policy = Inr state_policy"
    by (simp add: spec_collaborators_def load_current_def repo_policy_def state_policy_def)
  have "\<exists>st msg. SignTargets spec_collaborators repo_policy signer_B ''protect-main'' False
          = CommitCalled st msg False"
    by (simp add: SignTargets_def example_defs spec_defs)
  then obtain st msg where h:
    "SignTargets spec_collaborators repo_policy signer_B ''protect-main'' False
       = CommitCalled st msg False"
    by blast
  have o: "role_envelope state_policy ''protect-main''
             = Some \<lparr>payload = \<lparr>role_name = ''targets'', keys = [], delegations = []\<rparr>,
                     signatures = [(''C'', ''sigC'')]\<rparr>"
    by (simp add: example_defs)
  from SignTargets_keeps_payload [OF h p, THEN conjunct1] l o
  obtain env where
        s: "dsse_SignEnvelope spec_collaborators (role_envelope state_policy ''protect-main'')
              signer_B = Inr env"
    and n: "role_envelope st ''protect-main'' = Some env"
    and q: "payload env = \<lparr>role_name = ''targets'', keys = [], delegations = []\<rparr>"
    by auto
  from s have "signatures env = [(''C'', ''sigC''), (''B'', ''sigB'')]"
    by (auto simp: o spec_collaborators_def sign_envelope_def put_signature_def signer_B_def)
  with p n q show ?thesis
    by (simp add: h o)
qed

end
